theory Spec2Isabelle
  imports Main
begin

section \<open>Python values\<close>

text \<open>
  The handler of \<^verbatim>\<open>app.py\<close> works on what \<^verbatim>\<open>json.loads\<close> produces and on the
  event mapping of the platform: \<^verbatim>\<open>None\<close>, booleans, integers, floats, strings, lists
  and dictionaries with string keys. A dictionary is an association list (insertion
  order is what \<^verbatim>\<open>json.dumps\<close> prints; a lookup takes the first entry of a key).
  The program never computes with a float, it only carries it: a float is kept as
  its \<^verbatim>\<open>repr\<close>. A string is a list of characters, each one code point below 256.
\<close>

datatype json =
    JNull
  | JBool bool
  | JInt int
  | JFloat string
  | JStr string
  | JArr "json list"
  | JObj "(string \<times> json) list"

text \<open>
  Exceptions the code can meet, each with the message \<^verbatim>\<open>str(e)\<close> gives
  (wording of CPython 3.11).
\<close>

datatype py_error =
    TypeError string
  | AttributeError string
  | KeyError string
  | JSONDecodeError string
  | RequestException string

fun str_exn :: "py_error \<Rightarrow> string" where
  "str_exn (TypeError m) = m"
| "str_exn (AttributeError m) = m"
| "str_exn (KeyError m) = m"
| "str_exn (JSONDecodeError m) = m"
| "str_exn (RequestException m) = m"

text \<open>Sequencing of statements that may raise: the first exception ends the block.\<close>

definition bind_err :: "py_error + 'a \<Rightarrow> ('a \<Rightarrow> py_error + 'b) \<Rightarrow> py_error + 'b" where
  "bind_err m f = (case m of Inl e \<Rightarrow> Inl e | Inr x \<Rightarrow> f x)"

fun type_name :: "json \<Rightarrow> string" where
  "type_name JNull = ''NoneType''"
| "type_name (JBool _) = ''bool''"
| "type_name (JInt _) = ''int''"
| "type_name (JFloat _) = ''float''"
| "type_name (JStr _) = ''str''"
| "type_name (JArr _) = ''list''"
| "type_name (JObj _) = ''dict''"

fun is_str :: "json \<Rightarrow> bool" where
  "is_str (JStr _) = True"
| "is_str _ = False"

fun starts_with :: "string \<Rightarrow> string \<Rightarrow> bool" where
  "starts_with [] _ = True"
| "starts_with (p # ps) [] = False"
| "starts_with (p # ps) (c # cs) = (p = c \<and> starts_with ps cs)"

text \<open>\<^verbatim>\<open>sub in s\<close> on two strings: \<^verbatim>\<open>sub\<close> occurs in \<^verbatim>\<open>s\<close>.\<close>

fun str_contains :: "string \<Rightarrow> string \<Rightarrow> bool" where
  "str_contains sub [] = (sub = [])"
| "str_contains sub (c # cs) = (starts_with sub (c # cs) \<or> str_contains sub cs)"

text \<open>
  \<^verbatim>\<open>k in x\<close> for a string \<^verbatim>\<open>k\<close>: key membership on a dictionary, element equality on
  a list, substring on a string, \<^verbatim>\<open>TypeError\<close> on everything else.
\<close>

fun py_contains :: "string \<Rightarrow> json \<Rightarrow> py_error + bool" where
  "py_contains k (JObj kvs) = Inr (k \<in> set (map fst kvs))"
| "py_contains k (JArr xs) = Inr (JStr k \<in> set xs)"
| "py_contains k (JStr s) = Inr (str_contains k s)"
| "py_contains k v = Inl (TypeError (''argument of type '' @ [CHR 0x27] @ type_name v @ [CHR 0x27] @ '' is not iterable''))"

text \<open>\<^verbatim>\<open>x[k]\<close> for a string \<^verbatim>\<open>k\<close>.\<close>

fun py_getitem :: "json \<Rightarrow> string \<Rightarrow> py_error + json" where
  "py_getitem (JObj kvs) k =
     (case map_of kvs k of
        Some v \<Rightarrow> Inr v
      | None \<Rightarrow> Inl (KeyError ([CHR 0x27] @ k @ [CHR 0x27])))"
| "py_getitem (JArr xs) k = Inl (TypeError ''list indices must be integers or slices, not str'')"
| "py_getitem (JStr s) k = Inl (TypeError (''string indices must be integers, not '' @ [CHR 0x27] @ ''str'' @ [CHR 0x27]))"
| "py_getitem v k = Inl (TypeError ([CHR 0x27] @ type_name v @ [CHR 0x27] @ '' object is not subscriptable''))"

definition no_attribute :: "json \<Rightarrow> string \<Rightarrow> py_error" where
  "no_attribute v a =
     AttributeError ([CHR 0x27] @ type_name v @ [CHR 0x27] @ '' object has no attribute '' @ [CHR 0x27] @ a @ [CHR 0x27])"

text \<open>\<^verbatim>\<open>x.get(k, default)\<close>: only a dictionary has the method.\<close>

fun py_get :: "json \<Rightarrow> string \<Rightarrow> json \<Rightarrow> py_error + json" where
  "py_get (JObj kvs) k d = Inr (case map_of kvs k of Some v \<Rightarrow> v | None \<Rightarrow> d)"
| "py_get v k d = Inl (no_attribute v ''get'')"

text \<open>
  \<^verbatim>\<open>str.isspace\<close> on one code point below 256: tab to carriage return, the four
  separators 28 to 31, space, NEL (133) and the no-break space (160).
\<close>

definition py_isspace :: "char \<Rightarrow> bool" where
  "py_isspace c =
     (let n = (of_char c :: nat)
      in (9 \<le> n \<and> n \<le> 13) \<or> (28 \<le> n \<and> n \<le> 32) \<or> n = 133 \<or> n = 160)"

definition strip_str :: "string \<Rightarrow> string" where
  "strip_str s = rev (dropWhile py_isspace (rev (dropWhile py_isspace s)))"

text \<open>\<^verbatim>\<open>x.strip()\<close>: only a string has the method.\<close>

fun py_strip :: "json \<Rightarrow> py_error + string" where
  "py_strip (JStr s) = Inr (strip_str s)"
| "py_strip v = Inl (no_attribute v ''strip'')"

section \<open>\<^verbatim>\<open>json.dumps\<close>\<close>

definition digit_char :: "nat \<Rightarrow> char" where
  "digit_char n = char_of (48 + n)"

fun dec_nat :: "nat \<Rightarrow> string" where
  "dec_nat n = (if n < 10 then [digit_char n] else dec_nat (n div 10) @ [digit_char (n mod 10)])"

declare dec_nat.simps [simp del]

definition dec_int :: "int \<Rightarrow> string" where
  "dec_int i = (if i < 0 then ''-'' @ dec_nat (nat (- i)) else dec_nat (nat i))"

definition hex_char :: "nat \<Rightarrow> char" where
  "hex_char n = (if n < 10 then char_of (48 + n) else char_of (87 + n))"

text \<open>
  One character of a string under \<^verbatim>\<open>ensure_ascii=True\<close>: the quote and the backslash
  get a backslash, the five short escapes are used, and everything else outside
  space to tilde becomes \<^verbatim>\<open>\u00xx\<close>.
\<close>

definition escape_char :: "char \<Rightarrow> string" where
  "escape_char c =
     (let n = (of_char c :: nat) in
      if n = 0x22 then [CHR 0x5C, CHR 0x22]
      else if n = 0x5C then [CHR 0x5C, CHR 0x5C]
      else if n = 0x0A then [CHR 0x5C, CHR ''n'']
      else if n = 0x0D then [CHR 0x5C, CHR ''r'']
      else if n = 0x09 then [CHR 0x5C, CHR ''t'']
      else if n = 0x0C then [CHR 0x5C, CHR ''f'']
      else if n = 0x08 then [CHR 0x5C, CHR ''b'']
      else if 0x20 \<le> n \<and> n \<le> 0x7E then [c]
      else [CHR 0x5C, CHR ''u'', CHR ''0'', CHR ''0'', hex_char (n div 16), hex_char (n mod 16)])"

definition dumps_str :: "string \<Rightarrow> string" where
  "dumps_str s = [CHR 0x22] @ concat (map escape_char s) @ [CHR 0x22]"

fun join_str :: "string \<Rightarrow> string list \<Rightarrow> string" where
  "join_str sep [] = []"
| "join_str sep [x] = x"
| "join_str sep (x # y # ys) = x @ sep @ join_str sep (y # ys)"

text \<open>\<^verbatim>\<open>json.dumps(v)\<close> with the default separators \<^verbatim>\<open>", "\<close> and \<^verbatim>\<open>": "\<close>.\<close>

fun json_dumps :: "json \<Rightarrow> string" where
  "json_dumps JNull = ''null''"
| "json_dumps (JBool b) = (if b then ''true'' else ''false'')"
| "json_dumps (JInt i) = dec_int i"
| "json_dumps (JFloat r) = r"
| "json_dumps (JStr s) = dumps_str s"
| "json_dumps (JArr xs) = ''['' @ join_str '', '' (map json_dumps xs) @ '']''"
| "json_dumps (JObj kvs) =
     ''{'' @ join_str '', '' (map (\<lambda>kv. dumps_str (fst kv) @ '': '' @ json_dumps (snd kv)) kvs) @ ''}''"

definition newline_indent :: "nat \<Rightarrow> string" where
  "newline_indent level = [CHR 0x0A] @ replicate (2 * level) CHR '' ''"

text \<open>
  \<^verbatim>\<open>json.dumps(v, indent=2)\<close> at nesting depth \<open>level\<close>: one item a line, the item
  separator is a bare comma, empty containers stay on one line.
\<close>

fun json_dumps_indent :: "nat \<Rightarrow> json \<Rightarrow> string" where
  "json_dumps_indent level (JArr xs) =
     (if xs = [] then ''[]''
      else ''['' @ newline_indent (Suc level)
           @ join_str ('','' @ newline_indent (Suc level)) (map (json_dumps_indent (Suc level)) xs)
           @ newline_indent level @ '']'')"
| "json_dumps_indent level (JObj kvs) =
     (if kvs = [] then ''{}''
      else ''{'' @ newline_indent (Suc level)
           @ join_str ('','' @ newline_indent (Suc level))
               (map (\<lambda>kv. dumps_str (fst kv) @ '': '' @ json_dumps_indent (Suc level) (snd kv)) kvs)
           @ newline_indent level @ ''}'')"
| "json_dumps_indent level v = json_dumps v"

section \<open>The world outside the program\<close>

text \<open>
  \<^verbatim>\<open>datetime.now()\<close>: the fields of the clock reading. \<^verbatim>\<open>datetime\<close> keeps the month in
  1 to 12, the day in 1 to 31, the hour below 24, minute and second below 60; the
  year is read from the system clock (four digits).
\<close>

record datetime =
  year :: nat
  month :: nat
  day :: nat
  hour :: nat
  minute :: nat
  second :: nat


definition zfill :: "nat \<Rightarrow> string \<Rightarrow> string" where
  "zfill width s = replicate (width - length s) CHR ''0'' @ s"

text \<open>\<^verbatim>\<open>d.strftime('%Y-%m-%d %H:%M:%S')\<close>\<close>

definition strftime :: "datetime \<Rightarrow> string" where
  "strftime d =
     zfill 4 (dec_nat (year d)) @ ''-'' @ zfill 2 (dec_nat (month d)) @ ''-'' @ zfill 2 (dec_nat (day d))
     @ '' '' @ zfill 2 (dec_nat (hour d)) @ '':'' @ zfill 2 (dec_nat (minute d)) @ '':''
     @ zfill 2 (dec_nat (second d))"




text \<open>One call of \<^verbatim>\<open>requests.post(url, headers=..., json=..., timeout=...)\<close> and its reply.\<close>

record request =
  url :: string
  req_headers :: "(string \<times> string) list"
  req_json :: json
  timeout :: nat

record response =
  status_code :: int
  resp_text :: string

text \<open>
  What the program reads from outside: the environment variable read once at import,
  the \<^verbatim>\<open>json.loads\<close> of the standard library (\<open>Inl m\<close> is \<^verbatim>\<open>JSONDecodeError\<close> with
  message \<open>m\<close>), the network (\<open>Inl e\<close> is the exception \<^verbatim>\<open>requests.post\<close> raises) and
  the clock. Printing to the log changes none of the results and is left out.
\<close>

record world =
  MODEL_STUDIO_API_KEY :: "string option"
  json_loads :: "string \<Rightarrow> string + json"
  requests_post :: "request \<Rightarrow> py_error + response"
  now :: datetime

text \<open>The value \<^verbatim>\<open>handler\<close> returns: a dictionary with these three keys.\<close>

record http_result =
  statusCode :: int
  headers :: "(string \<times> string) list"
  body :: string

section \<open>\<^verbatim>\<open>get_ai_response\<close>\<close>

definition msg_unavailable :: string where
  \<open>msg_unavailable = ''I'm having trouble connecting to the AI service. Please check that the API key is configured correctly.''\<close>

definition msg_canned :: string where
  \<open>msg_canned = ''I received your message about meal planning! Here's a personalized suggestion: For a healthy vegetarian lunch, try a quinoa bowl with roasted vegetables, chickpeas, and tahini dressing. It's nutritious and delicious!''\<close>

definition msg_api_key :: string where
  \<open>msg_api_key = ''I'm having trouble with my API key. Please check that it's correctly configured. Meanwhile, here's a suggestion: For a healthy vegetarian lunch, try a colorful salad with quinoa, roasted vegetables, and protein like chickpeas or tofu!''\<close>

definition msg_technical :: string where
  \<open>msg_technical = ''I'm having some technical difficulties right now, but I'd love to help you plan healthy meals! For a vegetarian lunch, I suggest a nutrient-packed bowl with quinoa, fresh vegetables, and a protein source.''\<close>

definition msg_exception :: string where
  \<open>msg_exception = ''I received your message about meal planning. I'm having some technical difficulties right now, but here's a great suggestion: Try a Mediterranean-style quinoa bowl with chickpeas, cucumber, tomatoes, and olive oil dressing for a healthy vegetarian lunch!''\<close>

definition system_prompt :: string where
  \<open>system_prompt =
     ''You are a helpful AI meal planning assistant. You help users plan their meals based on their dietary preferences, restrictions, and goals. \<newline>''
   @ ''\<newline>''
   @ ''Key guidelines:\<newline>''
   @ ''- Ask about dietary restrictions (vegetarian, vegan, gluten-free, etc.)\<newline>''
   @ ''- Consider nutritional balance\<newline>''
   @ ''- Suggest specific meals and recipes\<newline>''
   @ ''- Be encouraging and helpful\<newline>''
   @ ''- Keep responses concise but informative\<newline>''
   @ ''\<newline>''
   @ ''User preferences to remember:\<newline>''
   @ ''- Dietary restrictions\<newline>''
   @ ''- Cuisine preferences  \<newline>''
   @ ''- Cooking skill level\<newline>''
   @ ''- Time constraints''\<close>

definition intl_url :: string where
  "intl_url = ''https://dashscope-intl.aliyuncs.com/api/v1/services/aigc/text-generation/generation''"

definition regular_url :: string where
  "regular_url = ''https://dashscope.aliyuncs.com/api/v1/services/aigc/text-generation/generation''"

definition api_headers :: "string \<Rightarrow> (string \<times> string) list" where
  "api_headers key = [(''Authorization'', ''Bearer '' @ key), (''Content-Type'', ''application/json'')]"

definition api_data :: "json \<Rightarrow> json" where
  "api_data user_message =
     JObj [(''model'', JStr ''qwen-turbo''),
           (''input'', JObj [(''messages'',
              JArr [JObj [(''role'', JStr ''system''), (''content'', JStr system_prompt)],
                    JObj [(''role'', JStr ''user''), (''content'', user_message)]])]),
           (''parameters'', JObj [(''max_tokens'', JInt 500), (''temperature'', JFloat ''0.7'')])]"

text \<open>
  The arguments of \<^verbatim>\<open>requests.post(url, headers=headers, json=data, timeout=30)\<close>;
  \<^verbatim>\<open>headers\<close> and \<^verbatim>\<open>data\<close> are built once and passed to both calls.
\<close>

definition api_request :: "string \<Rightarrow> string \<Rightarrow> json \<Rightarrow> request" where
  "api_request u key user_message =
     \<lparr>url = u, req_headers = api_headers key, req_json = api_data user_message, timeout = 30\<rparr>"

text \<open>\<^verbatim>\<open>'output' in response_data and 'text' in response_data['output']\<close>\<close>

definition has_output_text :: "json \<Rightarrow> py_error + bool" where
  "has_output_text response_data =
     bind_err (py_contains ''output'' response_data) (\<lambda>has_output.
       if has_output
       then bind_err (py_getitem response_data ''output'') (\<lambda>output. py_contains ''text'' output)
       else Inr False)"

text \<open>\<^verbatim>\<open>response_data['output']['text']\<close>\<close>

definition output_text :: "json \<Rightarrow> py_error + json" where
  "output_text response_data =
     bind_err (py_getitem response_data ''output'') (\<lambda>output. py_getitem output ''text'')"

text \<open>The two closing returns, on the status of the reply held in \<^verbatim>\<open>response\<close>.\<close>

definition status_fallback :: "response \<Rightarrow> json" where
  "status_fallback response =
     (if status_code response = 401 then JStr msg_api_key else JStr msg_technical)"

text \<open>
  The body of the \<^verbatim>\<open>try\<close> block of \<^verbatim>\<open>get_ai_response\<close>: what it returns or raises,
  and the calls of \<^verbatim>\<open>requests.post\<close> it made, in order.
\<close>

definition get_ai_response_try :: "world \<Rightarrow> json \<Rightarrow> json \<Rightarrow> (py_error + json) \<times> request list" where
  "get_ai_response_try w user_message user_id =
     (case MODEL_STUDIO_API_KEY w of
        None \<Rightarrow> (Inr (JStr msg_unavailable), [])
      | Some key \<Rightarrow>
          if key = [] then (Inr (JStr msg_unavailable), [])
          else
            let req1 = api_request intl_url key user_message
            in case requests_post w req1 of
                 Inl e \<Rightarrow> (Inl e, [req1])
               | Inr response \<Rightarrow>
                   if status_code response = 200 then
                     (case json_loads w (resp_text response) of
                        Inl m \<Rightarrow> (Inl (JSONDecodeError m), [req1])
                      | Inr response_data \<Rightarrow>
                          (bind_err (has_output_text response_data) (\<lambda>found.
                             if found then output_text response_data else Inr (JStr msg_canned)),
                           [req1]))
                   else if str_contains ''dashscope-intl'' (url req1) then
                     let req2 = api_request regular_url key user_message
                     in case requests_post w req2 of
                          Inl e \<Rightarrow> (Inl e, [req1, req2])
                        | Inr response2 \<Rightarrow>
                            if status_code response2 = 200 then
                              (case json_loads w (resp_text response2) of
                                 Inl m \<Rightarrow> (Inl (JSONDecodeError m), [req1, req2])
                               | Inr response_data \<Rightarrow>
                                   (bind_err (has_output_text response_data) (\<lambda>found.
                                      if found then output_text response_data
                                      else Inr (status_fallback response2)),
                                    [req1, req2]))
                            else (Inr (status_fallback response2), [req1, req2])
                   else (Inr (status_fallback response), [req1]))"

text \<open>\<^verbatim>\<open>get_ai_response\<close>: the \<^verbatim>\<open>try\<close> block under its \<^verbatim>\<open>except Exception\<close>.\<close>

definition get_ai_response :: "world \<Rightarrow> json \<Rightarrow> json \<Rightarrow> (py_error + json) \<times> request list" where
  "get_ai_response w user_message user_id =
     (case get_ai_response_try w user_message user_id of
        (Inl e, calls) \<Rightarrow> (Inr (JStr msg_exception), calls)
      | (Inr reply, calls) \<Rightarrow> (Inr reply, calls))"

text \<open>
  What the service sent in answer to a request, where the code reads one: the value
  under \<^verbatim>\<open>output\<close>, \<^verbatim>\<open>text\<close> in the JSON of a reply with status 200.
\<close>

definition reply_text :: "world \<Rightarrow> request \<Rightarrow> json option" where
  "reply_text w req =
     (case requests_post w req of
        Inl e \<Rightarrow> None
      | Inr response \<Rightarrow>
          if status_code response = 200 then
            (case json_loads w (resp_text response) of
               Inl m \<Rightarrow> None
             | Inr response_data \<Rightarrow>
                 (case has_output_text response_data of
                    Inl e \<Rightarrow> None
                  | Inr found \<Rightarrow>
                      if found then (case output_text response_data of Inl e \<Rightarrow> None | Inr t \<Rightarrow> Some t)
                      else None))
          else None)"

section \<open>\<^verbatim>\<open>handler\<close>\<close>

text \<open>
  The request body, looked for in \<^verbatim>\<open>event['body']\<close>, then in \<^verbatim>\<open>event['data']\<close>, then
  taken to be the whole event, serialized.
\<close>

definition get_body_str :: "json \<Rightarrow> py_error + json" where
  "get_body_str event =
     bind_err (py_contains ''body'' event) (\<lambda>has_body.
       if has_body then py_getitem event ''body''
       else bind_err (py_contains ''data'' event) (\<lambda>has_data.
         if has_data then py_getitem event ''data''
         else Inr (JStr (json_dumps event))))"

text \<open>
  The inner \<^verbatim>\<open>try\<close>: a non-empty string is parsed, a dictionary is taken as it is,
  anything else gives the empty dictionary; \<^verbatim>\<open>JSONDecodeError\<close> puts the event in the
  place of the body.
\<close>

definition parse_body :: "world \<Rightarrow> json \<Rightarrow> json \<Rightarrow> json" where
  "parse_body w event body_str =
     (case body_str of
        JStr s \<Rightarrow>
          (if s \<noteq> [] then (case json_loads w s of Inr parsed \<Rightarrow> parsed | Inl m \<Rightarrow> event)
           else JObj [])
      | JObj kvs \<Rightarrow> body_str
      | _ \<Rightarrow> JObj [])"

text \<open>
  The doubly nested body: parse \<^verbatim>\<open>body['body']\<close> and read the two keys; the bare
  \<^verbatim>\<open>except\<close> keeps whatever was assigned before the statement that raised.
\<close>

definition nested_message :: "world \<Rightarrow> string \<Rightarrow> json \<times> json" where
  "nested_message w s =
     (case json_loads w s of
        Inl m \<Rightarrow> (JStr [], JStr ''anonymous'')
      | Inr inner_body \<Rightarrow>
          (case py_get inner_body ''message'' (JStr []) of
             Inl e \<Rightarrow> (JStr [], JStr ''anonymous'')
           | Inr user_message \<Rightarrow>
               (case py_get inner_body ''user_id'' (JStr ''anonymous'') of
                  Inl e \<Rightarrow> (user_message, JStr ''anonymous'')
                | Inr user_id \<Rightarrow> (user_message, user_id))))"

text \<open>The pair \<^verbatim>\<open>(user_message, user_id)\<close> after the \<^verbatim>\<open>if\<close>/\<^verbatim>\<open>elif\<close> on the parsed body (\<^verbatim>\<open>body\<close> in the source).\<close>

definition extract_message :: "world \<Rightarrow> json \<Rightarrow> py_error + json \<times> json" where
  "extract_message w parsed_body =
     bind_err (py_contains ''message'' parsed_body) (\<lambda>has_message.
       if has_message then
         bind_err (py_getitem parsed_body ''message'') (\<lambda>user_message.
         bind_err (py_get parsed_body ''user_id'' (JStr ''anonymous'')) (\<lambda>user_id.
           Inr (user_message, user_id)))
       else
         bind_err (py_contains ''body'' parsed_body) (\<lambda>has_body.
           if has_body then
             bind_err (py_getitem parsed_body ''body'') (\<lambda>inner.
               case inner of
                 JStr s \<Rightarrow> Inr (nested_message w s)
               | _ \<Rightarrow> Inr (JStr [], JStr ''anonymous''))
           else Inr (JStr [], JStr ''anonymous'')))"

definition debug_response :: "json \<Rightarrow> string" where
  "debug_response event =
     ''[DEBUG] Could not extract message. Event structure: '' @ take 500 (json_dumps_indent 0 event) @ ''...''"

definition post_headers :: "(string \<times> string) list" where
  "post_headers =
     [(''Content-Type'', ''application/json''),
      (''Access-Control-Allow-Origin'', ''*''),
      (''Access-Control-Allow-Methods'', ''POST, GET, OPTIONS''),
      (''Access-Control-Allow-Headers'', ''Content-Type'')]"

text \<open>
  From \<^verbatim>\<open>user_message.strip()\<close> to the \<^verbatim>\<open>return\<close> of the POST branch: the reply of
  \<^verbatim>\<open>get_ai_response\<close> or the debug text, wrapped with the time stamp.
\<close>

definition chat_result :: "world \<Rightarrow> json \<Rightarrow> json \<Rightarrow> json \<Rightarrow> py_error + http_result" where
  "chat_result w event user_message user_id =
     bind_err (py_strip user_message) (\<lambda>stripped.
     bind_err (if stripped \<noteq> [] then fst (get_ai_response w user_message user_id)
               else Inr (JStr (debug_response event))) (\<lambda>response.
       Inr \<lparr>statusCode = 200, headers = post_headers,
            body = json_dumps (JObj [(''response'', response),
                                     (''timestamp'', JStr (strftime (now w)))])\<rparr>))"

definition handle_post :: "world \<Rightarrow> json \<Rightarrow> py_error + http_result" where
  "handle_post w event =
     bind_err (get_body_str event) (\<lambda>body_str.
     bind_err (extract_message w (parse_body w event body_str)) (\<lambda>(user_message, user_id).
       chat_result w event user_message user_id))"

definition get_result :: "world \<Rightarrow> http_result" where
  \<open>get_result w =
     \<lparr>statusCode = 200,
      headers = [(''Content-Type'', ''application/json''), (''Access-Control-Allow-Origin'', ''*'')],
      body = json_dumps (JObj
        [(''status'', JStr ''AI Meal Planner is running!''),
         (''message'', JStr ''Send a POST request with {"message": "your message", "user_id": "optional"} to chat with me.''),
         (''timestamp'', JStr (strftime (now w)))])\<rparr>\<close>

definition options_result :: http_result where
  "options_result =
     \<lparr>statusCode = 200,
      headers = [(''Access-Control-Allow-Origin'', ''*''),
                 (''Access-Control-Allow-Methods'', ''POST, GET, OPTIONS''),
                 (''Access-Control-Allow-Headers'', ''Content-Type'')],
      body = []\<rparr>"

text \<open>
  The \<^verbatim>\<open>try\<close> block of \<^verbatim>\<open>handler\<close>. \<open>Inr None\<close> is the end of the block reached with
  no \<^verbatim>\<open>return\<close>: the call gives \<^verbatim>\<open>None\<close>. The argument \<^verbatim>\<open>context\<close> is never read.
  The \<^verbatim>\<open>json.dumps(event)\<close> of the first log line cannot fail on a JSON value, and
  \<^verbatim>\<open>event.keys()\<close> is reached only after \<^verbatim>\<open>event.get\<close> has succeeded, on a dictionary.
\<close>

definition handler_try :: "world \<Rightarrow> json \<Rightarrow> json \<Rightarrow> py_error + http_result option" where
  "handler_try w event context =
     bind_err (py_get event ''httpMethod'' (JStr ''GET'')) (\<lambda>http_method.
       if http_method = JStr ''POST'' then bind_err (handle_post w event) (\<lambda>r. Inr (Some r))
       else if http_method = JStr ''GET'' then Inr (Some (get_result w))
       else if http_method = JStr ''OPTIONS'' then Inr (Some options_result)
       else Inr None)"

text \<open>The result of the \<^verbatim>\<open>except Exception as e\<close> block.\<close>

definition error_result :: "world \<Rightarrow> py_error \<Rightarrow> http_result" where
  "error_result w e =
     \<lparr>statusCode = 500,
      headers = [(''Content-Type'', ''application/json''), (''Access-Control-Allow-Origin'', ''*'')],
      body = json_dumps (JObj
        [(''response'', JStr (''Sorry, I encountered an error: '' @ str_exn e)),
         (''timestamp'', JStr (strftime (now w)))])\<rparr>"

definition handler :: "world \<Rightarrow> json \<Rightarrow> json \<Rightarrow> py_error + http_result option" where
  "handler w event context =
     (case handler_try w event context of
        Inl e \<Rightarrow> Inr (Some (error_result w e))
      | Inr r \<Rightarrow> Inr r)"

text \<open>
  The precedence in the words of the specification: (a) \<^verbatim>\<open>event.body\<close> if the key is
  present, else (b) \<^verbatim>\<open>event.data\<close> if present, else (c) the entire event serialized
  as JSON. It is compared with \<open>get_body_str\<close> below.
\<close>

definition spec_body_str :: "(string \<times> json) list \<Rightarrow> json" where
  "spec_body_str kvs =
     (case map_of kvs ''body'' of
        Some b \<Rightarrow> b
      | None \<Rightarrow>
          (case map_of kvs ''data'' of
             Some d \<Rightarrow> d
           | None \<Rightarrow> JStr (json_dumps (JObj kvs))))"

section \<open>Worlds for the examples\<close>

text \<open>
  The examples run the program in small worlds: the clock stands at one reading,
  \<^verbatim>\<open>json.loads\<close> is cut down to the texts the examples use (every other text, such as
  \<^verbatim>\<open>not json\<close>, is taken not to be JSON), and the network answers by the URL called.
\<close>

definition example_now :: datetime where
  "example_now = \<lparr>year = 2024, month = 5, day = 17, hour = 9, minute = 30, second = 5\<rparr>"

definition example_texts :: "(string \<times> json) list" where
  \<open>example_texts =
     [(''{"message": "hi", "user_id": "u1"}'', JObj [(''message'', JStr ''hi''), (''user_id'', JStr ''u1'')]),
      (''{"message": 5}'', JObj [(''message'', JInt 5)]),
      (''5'', JInt 5),
      (''{"output": {"text": "Try lentil soup."}}'',
         JObj [(''output'', JObj [(''text'', JStr ''Try lentil soup.'')])]),
      (''{"output": {"text": 5}}'', JObj [(''output'', JObj [(''text'', JInt 5)])])]\<close>

definition example_loads :: "string \<Rightarrow> string + json" where
  "example_loads s =
     (case map_of example_texts s of
        Some v \<Rightarrow> Inr v
      | None \<Rightarrow> Inl ''Expecting value: line 1 column 1 (char 0)'')"

definition example_post :: "(string \<times> (py_error + response)) list \<Rightarrow> request \<Rightarrow> py_error + response" where
  "example_post replies req =
     (case map_of replies (url req) of
        Some r \<Rightarrow> r
      | None \<Rightarrow> Inl (RequestException ''connection refused''))"

definition example_world :: "string option \<Rightarrow> (string \<times> (py_error + response)) list \<Rightarrow> world" where
  "example_world key replies =
     \<lparr>MODEL_STUDIO_API_KEY = key, json_loads = example_loads,
      requests_post = example_post replies, now = example_now\<rparr>"

definition post_event :: "string \<Rightarrow> json" where
  "post_event b = JObj [(''httpMethod'', JStr ''POST''), (''body'', JStr b)]"

section \<open>Lemmas\<close>

subsection \<open>The time stamp\<close>









subsection \<open>Python operations\<close>

lemma bind_err_Inl: "bind_err (Inl e) f = Inl e"
  by (simp add: bind_err_def)

lemma bind_err_Inr: "bind_err (Inr x) f = f x"
  by (simp add: bind_err_def)

lemma py_contains_dict: "py_contains k (JObj kvs) = Inr (map_of kvs k \<noteq> None)"
  by (simp add: map_of_eq_None_iff)

lemma get_ai_response_no_key:
  assumes "MODEL_STUDIO_API_KEY w = None \<or> MODEL_STUDIO_API_KEY w = Some []"
  shows "get_ai_response_try w user_message user_id = (Inr (JStr msg_unavailable), [])"
  using assms by (auto simp: get_ai_response_try_def)

subsection \<open>The AI client\<close>

lemma intl_url_is_intl: "str_contains ''dashscope-intl'' (url (api_request intl_url key m))"
  by (simp add: api_request_def intl_url_def)

lemma status_fallback_is_str: "is_str (status_fallback r)"
  by (simp add: status_fallback_def)

lemma fixed_messages_distinct:
  "msg_exception \<noteq> msg_unavailable" "msg_exception \<noteq> msg_canned"
  "msg_exception \<noteq> msg_api_key" "msg_exception \<noteq> msg_technical"
  "msg_technical \<noteq> msg_api_key"
  by (simp_all add: msg_exception_def msg_unavailable_def msg_canned_def msg_api_key_def msg_technical_def)

lemma output_text_dict:
  assumes "map_of okvs ''output'' = Some (JObj tkvs)" and "map_of tkvs ''text'' = Some t"
  shows "has_output_text (JObj okvs) = Inr True" and "output_text (JObj okvs) = Inr t"
  using assms
  by (simp_all add: has_output_text_def output_text_def py_contains_dict bind_err_Inr
      del: py_contains.simps)

lemma get_ai_response_try_reply:
  assumes "get_ai_response_try w m u = (Inr reply, calls)"
  shows "is_str reply \<or> (\<exists>req \<in> set calls. reply_text w req = Some reply)"
  using assms
  by (auto simp: get_ai_response_try_def reply_text_def bind_err_def Let_def intl_url_is_intl
        status_fallback_is_str
      split: option.splits sum.splits if_splits)

lemma get_ai_response_calls: "length (snd (get_ai_response w m u)) \<le> 2"
  by (auto simp: get_ai_response_def get_ai_response_try_def bind_err_def Let_def
      split: option.splits sum.splits if_splits prod.splits)

lemma get_ai_response_try_retry:
  assumes "MODEL_STUDIO_API_KEY w = Some key" and "key \<noteq> []"
    and "requests_post w (api_request intl_url key m) = Inr r1" and "status_code r1 \<noteq> 200"
  shows "get_ai_response_try w m u =
     (case requests_post w (api_request regular_url key m) of
        Inl e \<Rightarrow> (Inl e, [api_request intl_url key m, api_request regular_url key m])
      | Inr r2 \<Rightarrow>
          (if status_code r2 = 200 then
             (case json_loads w (resp_text r2) of
                Inl msg \<Rightarrow> Inl (JSONDecodeError msg)
              | Inr response_data \<Rightarrow>
                  bind_err (has_output_text response_data) (\<lambda>found.
                    if found then output_text response_data else Inr (status_fallback r2)))
           else Inr (status_fallback r2),
           [api_request intl_url key m, api_request regular_url key m]))"
  using assms
  by (simp add: get_ai_response_try_def Let_def intl_url_is_intl split: sum.splits)

subsection \<open>The handler\<close>

lemma get_body_str_dict: "get_body_str (JObj kvs) = Inr (spec_body_str kvs)"
  by (auto simp: get_body_str_def spec_body_str_def py_contains_dict bind_err_Inr
      simp del: py_contains.simps split: option.splits)

lemma handle_post_dict:
  "handle_post w (JObj kvs) =
     bind_err (extract_message w (parse_body w (JObj kvs) (spec_body_str kvs)))
       (\<lambda>(user_message, user_id). chat_result w (JObj kvs) user_message user_id)"
  by (simp add: handle_post_def get_body_str_dict bind_err_Inr)

lemma handler_try_post:
  assumes "map_of kvs ''httpMethod'' = Some (JStr ''POST'')"
  shows "handler_try w (JObj kvs) context = bind_err (handle_post w (JObj kvs)) (\<lambda>r. Inr (Some r))"
  using assms by (simp add: handler_try_def bind_err_Inr)

lemma extract_message_direct:
  assumes "map_of bkvs ''message'' = Some v"
  shows "extract_message w (JObj bkvs) =
     Inr (v, case map_of bkvs ''user_id'' of Some u \<Rightarrow> u | None \<Rightarrow> JStr ''anonymous'')"
  using assms
  by (simp add: extract_message_def py_contains_dict bind_err_Inr del: py_contains.simps)




lemma chat_result_not_str:
  assumes "\<not> is_str v"
  shows "chat_result w event v user_id = Inl (no_attribute v ''strip'')"
  using assms by (cases v) (simp_all add: chat_result_def bind_err_Inl)

lemma handler_result:
  "handler w event context =
     (case handler_try w event context of
        Inl e \<Rightarrow>
          Inr (Some \<lparr>statusCode = 500,
                     headers = [(''Content-Type'', ''application/json''), (''Access-Control-Allow-Origin'', ''*'')],
                     body = json_dumps (JObj
                       [(''response'', JStr (''Sorry, I encountered an error: '' @ str_exn e)),
                        (''timestamp'', JStr (strftime (now w)))])\<rparr>)
      | Inr r \<Rightarrow> Inr r)"
  by (simp add: handler_def error_result_def del: json_dumps.simps split: sum.splits)

lemma handler_try_None:
  "handler_try w event context = Inr None \<longleftrightarrow>
     (\<exists>kvs m. event = JObj kvs \<and> map_of kvs ''httpMethod'' = Some m
        \<and> m \<noteq> JStr ''POST'' \<and> m \<noteq> JStr ''GET'' \<and> m \<noteq> JStr ''OPTIONS'')"
proof (cases event)
  case (JObj kvs)
  show ?thesis
  proof (cases "map_of kvs ''httpMethod''")
    case None
    with JObj show ?thesis by (simp add: handler_try_def bind_err_Inr)
  next
    case (Some m)
    with JObj show ?thesis
      by (auto simp: handler_try_def bind_err_def split: sum.splits)
  qed
qed (simp_all add: handler_try_def bind_err_Inl)

lemma strftime_example_now: "strftime example_now = ''2024-05-17 09:30:05''"
  by code_simp


section \<open>The claims\<close>

text \<open>
  C4. For every message, when no API key is configured (the environment variable is
  unset or empty), \<^verbatim>\<open>get_ai_response\<close> returns the fixed "service unavailable"
  message and has made no call of \<^verbatim>\<open>requests.post\<close>.
\<close>

theorem no_api_key_no_network_call:
  assumes "MODEL_STUDIO_API_KEY w = None \<or> MODEL_STUDIO_API_KEY w = Some []"
  shows "get_ai_response w user_message user_id = (Inr (JStr msg_unavailable), [])"
  using get_ai_response_no_key [OF assms] by (simp add: get_ai_response_def)

theorem no_api_key_no_network_call_witness:
  "MODEL_STUDIO_API_KEY (example_world None [(intl_url, Inr \<lparr>status_code = 200, resp_text = ''5''\<rparr>)]) = None
   \<and> get_ai_response (example_world None [(intl_url, Inr \<lparr>status_code = 200, resp_text = ''5''\<rparr>)])
        (JStr ''hi'') (JStr ''u1'')
      = (Inr (JStr msg_unavailable), [])"
proof -
  have h: "MODEL_STUDIO_API_KEY (example_world None [(intl_url, Inr \<lparr>status_code = 200, resp_text = ''5''\<rparr>)]) = None"
    by (simp add: example_world_def)
  from h no_api_key_no_network_call [OF disjI1 [OF h]] show ?thesis by simp
qed

text \<open>
  C9. For every event whose \<^verbatim>\<open>httpMethod\<close> is none of GET, POST and OPTIONS, the
  handler returns no value (\<^verbatim>\<open>None\<close>) and not an HTTP result.
\<close>

theorem other_method_returns_nothing:
  assumes "map_of kvs ''httpMethod'' = Some m"
    and "m \<noteq> JStr ''GET''" and "m \<noteq> JStr ''POST''" and "m \<noteq> JStr ''OPTIONS''"
  shows "handler w (JObj kvs) context = Inr None"
  using assms by (simp add: handler_def handler_try_def bind_err_Inr)

theorem other_method_returns_nothing_witness:
  "map_of [(''httpMethod'', JStr ''PUT''), (''body'', JStr ''5'')] ''httpMethod'' = Some (JStr ''PUT'')
   \<and> JStr ''PUT'' \<noteq> JStr ''GET'' \<and> JStr ''PUT'' \<noteq> JStr ''POST'' \<and> JStr ''PUT'' \<noteq> JStr ''OPTIONS''
   \<and> handler (example_world None []) (JObj [(''httpMethod'', JStr ''PUT''), (''body'', JStr ''5'')]) JNull = Inr None"
proof -
  have h: "map_of [(''httpMethod'', JStr ''PUT''), (''body'', JStr ''5'')] ''httpMethod'' = Some (JStr ''PUT'')"
    by simp
  have g: "JStr ''PUT'' \<noteq> JStr ''GET''" and p: "JStr ''PUT'' \<noteq> JStr ''POST''"
    and opt: "JStr ''PUT'' \<noteq> JStr ''OPTIONS''"
    by simp_all
  from other_method_returns_nothing [OF h g p opt] h g p opt show ?thesis by blast
qed

text \<open>
  C3, as amended. For every message and user identifier, \<^verbatim>\<open>get_ai_response\<close> never
  raises: it returns a value, and every exception of its \<^verbatim>\<open>try\<close> block (a network
  error, a reply that is not JSON, a reply of an unexpected shape) becomes the third
  fixed fallback text, which differs from the four other fixed texts. The value
  returned is a string, or else it is the \<^verbatim>\<open>output.text\<close> value of a reply with
  status 200, handed on as it came.
\<close>

theorem get_ai_response_never_raises:
  "(\<exists>reply. fst (get_ai_response w user_message user_id) = Inr reply
       \<and> (is_str reply
           \<or> (\<exists>req \<in> set (snd (get_ai_response w user_message user_id)). reply_text w req = Some reply)))
   \<and> (\<forall>e. fst (get_ai_response_try w user_message user_id) = Inl e
          \<longrightarrow> fst (get_ai_response w user_message user_id) = Inr (JStr msg_exception))
   \<and> msg_exception \<noteq> msg_unavailable \<and> msg_exception \<noteq> msg_canned
   \<and> msg_exception \<noteq> msg_api_key \<and> msg_exception \<noteq> msg_technical"
proof -
  obtain res calls where t: "get_ai_response_try w user_message user_id = (res, calls)"
    by (cases "get_ai_response_try w user_message user_id")
  show ?thesis
  proof (cases res)
    case (Inl e)
    with t show ?thesis
      by (simp add: get_ai_response_def fixed_messages_distinct)
  next
    case (Inr reply)
    with t get_ai_response_try_reply [of w user_message user_id reply calls] show ?thesis
      by (simp add: get_ai_response_def fixed_messages_distinct)
  qed
qed

theorem get_ai_response_never_raises_witness:
  "fst (get_ai_response_try (example_world (Some ''sk-test'') []) (JStr ''hi'') (JStr ''u1''))
      = Inl (RequestException ''connection refused'')
   \<and> fst (get_ai_response (example_world (Some ''sk-test'') []) (JStr ''hi'') (JStr ''u1''))
      = Inr (JStr msg_exception)"
proof -
  have h: "fst (get_ai_response_try (example_world (Some ''sk-test'') []) (JStr ''hi'') (JStr ''u1''))
      = Inl (RequestException ''connection refused'')"
    by (simp add: get_ai_response_try_def example_world_def example_post_def Let_def)
  from get_ai_response_never_raises [of "example_world (Some ''sk-test'') []" "JStr ''hi''" "JStr ''u1''"] h
  show ?thesis by blast
qed

text \<open>
  C3 as stated fails: with a key configured and a reply of status 200 whose JSON is
  \<^verbatim>\<open>{"output": {"text": 5}}\<close>, the value returned is the number 5, not a string.
\<close>

theorem get_ai_response_returns_number:
  \<open>fst (get_ai_response
          (example_world (Some ''sk-test'')
             [(intl_url, Inr \<lparr>status_code = 200, resp_text = ''{"output": {"text": 5}}''\<rparr>)])
          (JStr ''hi'') (JStr ''u1'')) = Inr (JInt 5)
    \<and> \<not> is_str (JInt 5)\<close>
  by (simp add: get_ai_response_def get_ai_response_try_def example_world_def example_post_def
      example_loads_def example_texts_def api_request_def Let_def has_output_text_def
      output_text_def bind_err_def)

text \<open>
  C5 as stated fails: the status tested is the one of the last reply. The
  international endpoint answers 401, the retry on the regular endpoint answers 500,
  and the text returned is the generic fallback, not the text about the API key.
\<close>

theorem primary_401_retry_500:
  \<open>requests_post
      (example_world (Some ''sk-test'')
         [(intl_url, Inr \<lparr>status_code = 401, resp_text = ''''\<rparr>),
          (regular_url, Inr \<lparr>status_code = 500, resp_text = ''''\<rparr>)])
      (api_request intl_url ''sk-test'' (JStr ''hi''))
     = Inr \<lparr>status_code = 401, resp_text = ''''\<rparr>
   \<and> fst (get_ai_response
          (example_world (Some ''sk-test'')
             [(intl_url, Inr \<lparr>status_code = 401, resp_text = ''''\<rparr>),
              (regular_url, Inr \<lparr>status_code = 500, resp_text = ''''\<rparr>)])
          (JStr ''hi'') (JStr ''u1'')) = Inr (JStr msg_technical)
   \<and> msg_technical \<noteq> msg_api_key\<close>
  by (simp add: get_ai_response_def get_ai_response_try_def example_world_def example_post_def
      api_request_def Let_def status_fallback_def intl_url_def regular_url_def
      fixed_messages_distinct)

text \<open>
  C5, as amended. For every call in which the international endpoint returns status
  401 and the one retry on the regular endpoint returns 401 as well,
  \<^verbatim>\<open>get_ai_response\<close> returns the fixed text about the API key.
\<close>

theorem last_status_401_api_key_message:
  assumes "MODEL_STUDIO_API_KEY w = Some key" and "key \<noteq> []"
    and "requests_post w (api_request intl_url key user_message) = Inr r1" and "status_code r1 = 401"
    and "requests_post w (api_request regular_url key user_message) = Inr r2" and "status_code r2 = 401"
  shows "fst (get_ai_response w user_message user_id) = Inr (JStr msg_api_key)"
proof -
  from assms(4) have "status_code r1 \<noteq> 200" by simp
  from get_ai_response_try_retry [OF assms(1,2,3) this, of user_id] assms(5,6)
  show ?thesis by (simp add: get_ai_response_def status_fallback_def)
qed

theorem last_status_401_api_key_message_witness:
  \<open>fst (get_ai_response
          (example_world (Some ''sk-test'')
             [(intl_url, Inr \<lparr>status_code = 401, resp_text = ''denied''\<rparr>),
              (regular_url, Inr \<lparr>status_code = 401, resp_text = ''denied''\<rparr>)])
          (JStr ''hi'') (JStr ''u1'')) = Inr (JStr msg_api_key)\<close>
proof -
  let ?w = "example_world (Some ''sk-test'')
             [(intl_url, Inr \<lparr>status_code = 401, resp_text = ''denied''\<rparr>),
              (regular_url, Inr \<lparr>status_code = 401, resp_text = ''denied''\<rparr>)]"
  have k: "MODEL_STUDIO_API_KEY ?w = Some ''sk-test''" and n: "''sk-test'' \<noteq> []"
    by (simp_all add: example_world_def)
  have p1: "requests_post ?w (api_request intl_url ''sk-test'' (JStr ''hi''))
      = Inr \<lparr>status_code = 401, resp_text = ''denied''\<rparr>"
    by (simp add: example_world_def example_post_def api_request_def)
  have p2: "requests_post ?w (api_request regular_url ''sk-test'' (JStr ''hi''))
      = Inr \<lparr>status_code = 401, resp_text = ''denied''\<rparr>"
    by (simp add: example_world_def example_post_def api_request_def intl_url_def regular_url_def)
  have s: "status_code \<lparr>status_code = 401, resp_text = ''denied''\<rparr> = 401" by simp
  from last_status_401_api_key_message [OF k n p1 s p2 s] show ?thesis .
qed

text \<open>
  C6. For every call in which the first request, to the international endpoint,
  returns a status other than 200, \<^verbatim>\<open>get_ai_response\<close> makes exactly two calls of
  \<^verbatim>\<open>requests.post\<close>: the first, and one retry to the regular endpoint with the same
  headers, payload and timeout; and when that retry returns 200 with a JSON object
  holding \<^verbatim>\<open>output\<close>, \<^verbatim>\<open>text\<close>, that text is returned.
\<close>

theorem retry_once_on_regular_endpoint:
  assumes "MODEL_STUDIO_API_KEY w = Some key" and "key \<noteq> []"
    and "requests_post w (api_request intl_url key user_message) = Inr r1"
    and "status_code r1 \<noteq> 200"
  shows "snd (get_ai_response w user_message user_id)
           = [\<lparr>url = intl_url, req_headers = api_headers key, req_json = api_data user_message, timeout = 30\<rparr>,
              \<lparr>url = regular_url, req_headers = api_headers key, req_json = api_data user_message, timeout = 30\<rparr>]
         \<and> (\<forall>r2 okvs tkvs t.
               requests_post w (api_request regular_url key user_message) = Inr r2
               \<and> status_code r2 = 200
               \<and> json_loads w (resp_text r2) = Inr (JObj okvs)
               \<and> map_of okvs ''output'' = Some (JObj tkvs)
               \<and> map_of tkvs ''text'' = Some t
             \<longrightarrow> fst (get_ai_response w user_message user_id) = Inr t)"
proof -
  note step = get_ai_response_try_retry [OF assms, of user_id]
  have calls: "snd (get_ai_response w user_message user_id)
      = [api_request intl_url key user_message, api_request regular_url key user_message]"
    using step by (simp add: get_ai_response_def split: sum.splits prod.splits)
  have reply: "fst (get_ai_response w user_message user_id) = Inr t"
    if "requests_post w (api_request regular_url key user_message) = Inr r2"
      and "status_code r2 = 200"
      and "json_loads w (resp_text r2) = Inr (JObj okvs)"
      and "map_of okvs ''output'' = Some (JObj tkvs)"
      and "map_of tkvs ''text'' = Some t"
    for r2 okvs tkvs t
    using step that output_text_dict [OF that(4,5)]
    by (simp add: get_ai_response_def bind_err_Inr)
  from calls reply show ?thesis
    by (simp add: api_request_def)
qed

theorem retry_once_on_regular_endpoint_witness:
  \<open>get_ai_response
      (example_world (Some ''sk-test'')
         [(intl_url, Inr \<lparr>status_code = 500, resp_text = ''busy''\<rparr>),
          (regular_url, Inr \<lparr>status_code = 200, resp_text = ''{"output": {"text": "Try lentil soup."}}''\<rparr>)])
      (JStr ''hi'') (JStr ''u1'')
    = (Inr (JStr ''Try lentil soup.''),
       [\<lparr>url = intl_url, req_headers = api_headers ''sk-test'', req_json = api_data (JStr ''hi''), timeout = 30\<rparr>,
        \<lparr>url = regular_url, req_headers = api_headers ''sk-test'', req_json = api_data (JStr ''hi''), timeout = 30\<rparr>])\<close>
proof -
  let ?w = \<open>example_world (Some ''sk-test'')
         [(intl_url, Inr \<lparr>status_code = 500, resp_text = ''busy''\<rparr>),
          (regular_url, Inr \<lparr>status_code = 200, resp_text = ''{"output": {"text": "Try lentil soup."}}''\<rparr>)]\<close>
  have k: "MODEL_STUDIO_API_KEY ?w = Some ''sk-test''" and n: "''sk-test'' \<noteq> []"
    by (simp_all add: example_world_def)
  have p1: "requests_post ?w (api_request intl_url ''sk-test'' (JStr ''hi''))
      = Inr \<lparr>status_code = 500, resp_text = ''busy''\<rparr>"
    by (simp add: example_world_def example_post_def api_request_def)
  have s1: "status_code \<lparr>status_code = 500, resp_text = ''busy''\<rparr> \<noteq> 200" by simp
  have p2: \<open>requests_post ?w (api_request regular_url ''sk-test'' (JStr ''hi''))
      = Inr \<lparr>status_code = 200, resp_text = ''{"output": {"text": "Try lentil soup."}}''\<rparr>\<close>
    by (simp add: example_world_def example_post_def api_request_def intl_url_def regular_url_def)
  have l: \<open>json_loads ?w (resp_text \<lparr>status_code = 200, resp_text = ''{"output": {"text": "Try lentil soup."}}''\<rparr>)
      = Inr (JObj [(''output'', JObj [(''text'', JStr ''Try lentil soup.'')])])\<close>
    by (simp add: example_world_def example_loads_def example_texts_def)
  from retry_once_on_regular_endpoint [OF k n p1 s1, of "JStr ''u1''"] p2 l
  show ?thesis
    by (simp add: prod_eq_iff)
qed

text \<open>
  C1, as amended. For every event, \<^verbatim>\<open>handler\<close> never raises: it returns a value, and
  any exception raised while the event is processed is caught and turned into a
  result with status 500, the CORS header and the JSON body
  \<^verbatim>\<open>{"response": "Sorry, I encountered an error: <message>", "timestamp": <now>}\<close>.
  The value returned is an HTTP result except for an event whose \<^verbatim>\<open>httpMethod\<close> is
  none of GET, POST and OPTIONS, for which it is \<^verbatim>\<open>None\<close>.
\<close>

theorem handler_never_raises:
  "(\<exists>r. handler w event context = Inr r)
   \<and> (\<forall>e. handler_try w event context = Inl e \<longrightarrow>
          handler w event context =
            Inr (Some \<lparr>statusCode = 500,
                       headers = [(''Content-Type'', ''application/json''),
                                  (''Access-Control-Allow-Origin'', ''*'')],
                       body = json_dumps (JObj
                         [(''response'', JStr (''Sorry, I encountered an error: '' @ str_exn e)),
                          (''timestamp'', JStr (strftime (now w)))])\<rparr>))
   \<and> (handler w event context = Inr None \<longleftrightarrow>
        (\<exists>kvs m. event = JObj kvs \<and> map_of kvs ''httpMethod'' = Some m
           \<and> m \<noteq> JStr ''POST'' \<and> m \<noteq> JStr ''GET'' \<and> m \<noteq> JStr ''OPTIONS''))"
proof (cases "handler_try w event context")
  case (Inl e)
  have "handler_try w event context \<noteq> Inr None" using Inl by simp
  then show ?thesis
    using Inl handler_result [of w event "context"] handler_try_None [of w event "context"]
    by (simp del: json_dumps.simps)
next
  case (Inr r)
  then show ?thesis
    using handler_result [of w event "context"] handler_try_None [of w event "context"]
    by (simp del: json_dumps.simps)
qed

theorem handler_never_raises_witness:
  \<open>handler_try (example_world None []) (JArr []) JNull = Inl (no_attribute (JArr []) ''get'')
   \<and> handler (example_world None []) (JArr []) JNull =
       Inr (Some \<lparr>statusCode = 500,
                  headers = [(''Content-Type'', ''application/json''),
                             (''Access-Control-Allow-Origin'', ''*'')],
                  body = ''{"response": "Sorry, I encountered an error: 'list' object has no attribute 'get'", "timestamp": "2024-05-17 09:30:05"}''\<rparr>)\<close>
proof -
  have h: "handler_try (example_world None []) (JArr []) JNull = Inl (no_attribute (JArr []) ''get'')"
    by (simp add: handler_try_def bind_err_Inl)
  have n: "now (example_world None []) = example_now"
    by (simp add: example_world_def)
  from handler_never_raises [of "example_world None []" "JArr []" JNull] h
  have "handler (example_world None []) (JArr []) JNull =
      Inr (Some \<lparr>statusCode = 500,
                 headers = [(''Content-Type'', ''application/json''),
                            (''Access-Control-Allow-Origin'', ''*'')],
                 body = json_dumps (JObj
                   [(''response'', JStr (''Sorry, I encountered an error: '' @ str_exn (no_attribute (JArr []) ''get''))),
                    (''timestamp'', JStr (strftime (now (example_world None []))))])\<rparr>)"
    by blast
  with h show ?thesis
    by (simp add: n strftime_example_now no_attribute_def dumps_str_def escape_char_def)
qed

text \<open>
  C1 as stated fails: for the event \<^verbatim>\<open>{"httpMethod": "PUT"}\<close> the handler returns
  \<^verbatim>\<open>None\<close>, which is no HTTP result.
\<close>

theorem put_event_returns_nothing:
  "handler (example_world None []) (JObj [(''httpMethod'', JStr ''PUT'')]) JNull = Inr None"
  by (simp add: handler_def handler_try_def bind_err_Inr)









text \<open>
  C10. For every POST event whose parsed body is a dictionary that maps \<^verbatim>\<open>message\<close> to
  a value that is not a string, \<^verbatim>\<open>user_message.strip()\<close> raises \<^verbatim>\<open>AttributeError\<close>,
  which only the outer \<^verbatim>\<open>except\<close> catches: the handler returns status 500 with the
  error body, not a 200 chat response.
\<close>

theorem non_string_message_gives_500:
  assumes "map_of kvs ''httpMethod'' = Some (JStr ''POST'')"
    and "get_body_str (JObj kvs) = Inr body_str"
    and "parse_body w (JObj kvs) body_str = JObj bkvs"
    and "map_of bkvs ''message'' = Some v"
    and "\<not> is_str v"
  shows "handler_try w (JObj kvs) context
           = Inl (AttributeError ([CHR 0x27] @ type_name v @ [CHR 0x27] @ '' object has no attribute ''
                                  @ [CHR 0x27] @ ''strip'' @ [CHR 0x27]))
         \<and> handler w (JObj kvs) context =
             Inr (Some \<lparr>statusCode = 500,
                        headers = [(''Content-Type'', ''application/json''),
                                   (''Access-Control-Allow-Origin'', ''*'')],
                        body = json_dumps (JObj
                          [(''response'', JStr (''Sorry, I encountered an error: '' @ [CHR 0x27] @ type_name v
                              @ [CHR 0x27] @ '' object has no attribute '' @ [CHR 0x27] @ ''strip'' @ [CHR 0x27])),
                           (''timestamp'', JStr (strftime (now w)))])\<rparr>)"
proof -
  from assms(2) have b: "body_str = spec_body_str kvs"
    by (simp add: get_body_str_dict)
  have "handle_post w (JObj kvs) = Inl (no_attribute v ''strip'')"
    using assms(3,4,5) b
    by (simp add: handle_post_dict extract_message_direct bind_err_Inr chat_result_not_str)
  then have t: "handler_try w (JObj kvs) context = Inl (no_attribute v ''strip'')"
    by (simp add: handler_try_post [OF assms(1)] bind_err_Inl)
  with handler_result [of w "JObj kvs" "context"] show ?thesis
    by (simp add: no_attribute_def del: json_dumps.simps)
qed

theorem non_string_message_gives_500_witness:
  \<open>handler (example_world (Some ''sk-test'') []) (post_event ''{"message": 5}'') JNull =
     Inr (Some \<lparr>statusCode = 500,
                headers = [(''Content-Type'', ''application/json''),
                           (''Access-Control-Allow-Origin'', ''*'')],
                body = ''{"response": "Sorry, I encountered an error: 'int' object has no attribute 'strip'", "timestamp": "2024-05-17 09:30:05"}''\<rparr>)\<close>
proof -
  let ?w = "example_world (Some ''sk-test'') []"
  let ?kvs = \<open>[(''httpMethod'', JStr ''POST''), (''body'', JStr ''{"message": 5}'')]\<close>
  have m: "map_of ?kvs ''httpMethod'' = Some (JStr ''POST'')" by simp
  have g: \<open>get_body_str (JObj ?kvs) = Inr (JStr ''{"message": 5}'')\<close>
    by (simp add: get_body_str_def bind_err_Inr)
  have p: \<open>parse_body ?w (JObj ?kvs) (JStr ''{"message": 5}'') = JObj [(''message'', JInt 5)]\<close>
    by (simp add: parse_body_def example_world_def example_loads_def example_texts_def)
  have v: "map_of [(''message'', JInt 5)] ''message'' = Some (JInt 5)" by simp
  have s: "\<not> is_str (JInt 5)" by simp
  have n: "now ?w = example_now" by (simp add: example_world_def)
  from non_string_message_gives_500 [OF m g p v s, of JNull] show ?thesis
    by (simp add: post_event_def n strftime_example_now dumps_str_def escape_char_def)
qed

end
